theory Spec2Isabelle
  imports Main "HOL-Library.Sublist" "HOL-Library.AList"
begin

section \<open>Leak detection over recorded traffic captures (detect_leakage.py)\<close>

subsection \<open>Python values and errors\<close>

text \<open>
  The user-data file and the cookies of a capture are JSON. A field of such a record is
  modelled as a JSON scalar: null, a boolean, an integer or a string. Nested arrays and
  objects and floating-point numbers as field values are outside this model. Strings are
  lists of characters, a character being a code point below 256; the character-class
  operations (\<open>lower\<close>, \<open>strip\<close>) are modelled on that range.
\<close>

datatype pyval = PNone | PBool bool | PInt int | PStr string

text \<open>A dict keeps insertion order: an association list with pairwise distinct keys.\<close>

type_synonym pydict = "(string \<times> pyval) list"

datatype py_error = TypeError | AttributeError | UnboundLocalError | JSONDecodeError

text \<open>\<open>d.get(key)\<close> and \<open>d.get(key, default)\<close>.\<close>

definition dict_get :: "pydict \<Rightarrow> string \<Rightarrow> pyval" where
  "dict_get d key = (case map_of d key of None \<Rightarrow> PNone | Some v \<Rightarrow> v)"

definition dict_get_default :: "pydict \<Rightarrow> string \<Rightarrow> pyval \<Rightarrow> pyval" where
  "dict_get_default d key dflt = (case map_of d key of None \<Rightarrow> dflt | Some v \<Rightarrow> v)"

definition isinstance_str :: "pyval \<Rightarrow> bool" where
  "isinstance_str v = (case v of PStr _ \<Rightarrow> True | _ \<Rightarrow> False)"

text \<open>Decimal digits of a natural number, as \<open>str\<close> prints an int.\<close>

fun nat_digits :: "nat \<Rightarrow> string" where
  "nat_digits n =
     (if n < 10 then [''0123456789'' ! n]
      else nat_digits (n div 10) @ [''0123456789'' ! (n mod 10)])"

declare nat_digits.simps [simp del]

text \<open>What an f-string puts in place of \<open>{v}\<close>: \<open>str(v)\<close>.\<close>

definition py_str :: "pyval \<Rightarrow> string" where
  "py_str v =
     (case v of
        PNone \<Rightarrow> ''None''
      | PBool b \<Rightarrow> (if b then ''True'' else ''False'')
      | PInt i \<Rightarrow> (if i < 0 then ''-'' @ nat_digits (nat (- i)) else nat_digits (nat i))
      | PStr s \<Rightarrow> s)"

text \<open>\<open>v[n:]\<close> and \<open>v[:n]\<close> for a non-negative \<open>n\<close>: only a string can be sliced.\<close>

definition slice_from :: "nat \<Rightarrow> pyval \<Rightarrow> py_error + pyval" where
  "slice_from n v = (case v of PStr s \<Rightarrow> Inr (PStr (drop n s)) | _ \<Rightarrow> Inl TypeError)"

definition slice_to :: "nat \<Rightarrow> pyval \<Rightarrow> py_error + pyval" where
  "slice_to n v = (case v of PStr s \<Rightarrow> Inr (PStr (take n s)) | _ \<Rightarrow> Inl TypeError)"

text \<open>\<open>v.replace(" ", "")\<close>: only a string has the method.\<close>

definition replace_spaces :: "pyval \<Rightarrow> py_error + pyval" where
  "replace_spaces v =
     (case v of PStr s \<Rightarrow> Inr (PStr (filter (\<lambda>c. c \<noteq> CHR '' '') s))
      | _ \<Rightarrow> Inl AttributeError)"

text \<open>
  The characters below 256 that \<open>str.isspace\<close> accepts, which \<open>str.strip\<close>
  removes at both ends: tab, line feed, vertical tab, form feed, carriage return, the four
  separators 0x1C to 0x1F, the space, the next-line control 0x85 and the no-break space
  0xA0.
\<close>

definition is_space :: "char \<Rightarrow> bool" where
  "is_space c =
     (c \<in> set [CHR 0x09, CHR 0x0A, CHR 0x0B, CHR 0x0C, CHR 0x0D,
                CHR 0x1C, CHR 0x1D, CHR 0x1E, CHR 0x1F, CHR 0x20, CHR 0x85, CHR 0xA0])"

definition strip :: "string \<Rightarrow> string" where
  "strip s = rev (dropWhile is_space (rev (dropWhile is_space s)))"

text \<open>
  The upper-case letters below 256 and their lower-case forms, as \<open>str.lower\<close> maps
  them: A to Z, and the accented letters 0xC0 to 0xDE (the multiplication sign 0xD7 is not
  a letter), each 32 below its lower-case form.
\<close>

definition upper_letters :: string where
  "upper_letters = ''ABCDEFGHIJKLMNOPQRSTUVWXYZ'' @
     [CHR 0xC0, CHR 0xC1, CHR 0xC2, CHR 0xC3, CHR 0xC4, CHR 0xC5,
      CHR 0xC6, CHR 0xC7, CHR 0xC8, CHR 0xC9, CHR 0xCA, CHR 0xCB,
      CHR 0xCC, CHR 0xCD, CHR 0xCE, CHR 0xCF, CHR 0xD0, CHR 0xD1,
      CHR 0xD2, CHR 0xD3, CHR 0xD4, CHR 0xD5, CHR 0xD6, CHR 0xD8,
      CHR 0xD9, CHR 0xDA, CHR 0xDB, CHR 0xDC, CHR 0xDD, CHR 0xDE]"

definition lower_letters :: string where
  "lower_letters = ''abcdefghijklmnopqrstuvwxyz'' @
     [CHR 0xE0, CHR 0xE1, CHR 0xE2, CHR 0xE3, CHR 0xE4, CHR 0xE5,
      CHR 0xE6, CHR 0xE7, CHR 0xE8, CHR 0xE9, CHR 0xEA, CHR 0xEB,
      CHR 0xEC, CHR 0xED, CHR 0xEE, CHR 0xEF, CHR 0xF0, CHR 0xF1,
      CHR 0xF2, CHR 0xF3, CHR 0xF4, CHR 0xF5, CHR 0xF6, CHR 0xF8,
      CHR 0xF9, CHR 0xFA, CHR 0xFB, CHR 0xFC, CHR 0xFD, CHR 0xFE]"

definition lower_char :: "char \<Rightarrow> char" where
  "lower_char c =
     (case map_of (zip upper_letters lower_letters) c of
        None \<Rightarrow> c
      | Some l \<Rightarrow> l)"

definition lower :: "string \<Rightarrow> string" where
  "lower s = map lower_char s"

text \<open>Truthiness of an optional string: \<open>None\<close> and the empty string are false.\<close>

definition truthy :: "string option \<Rightarrow> bool" where
  "truthy content = (case content of None \<Rightarrow> False | Some s \<Rightarrow> s \<noteq> [])"

subsection \<open>Collaborators\<close>

text \<open>
  The layered detector is an external library. It offers five check operations, each from
  one string to a list of match tuples; a tuple is a sequence of strings. The model takes
  the detector as a function of the operation and the content, and records every call that
  is made (operation and argument) next to the value computed.
\<close>

datatype det_op = CheckUrl | CheckReferrerStr | CheckPostData | CheckLocationHeader | CheckCookieStr

type_synonym match_tuple = "string list"
type_synonym detector = "det_op \<Rightarrow> string \<Rightarrow> match_tuple list"
type_synonym call = "det_op \<times> string"
type_synonym check_method = "string \<Rightarrow> match_tuple list \<times> call list"

definition bound_method :: "detector \<Rightarrow> det_op \<Rightarrow> check_method" where
  "bound_method leak_detector op content = (leak_detector op content, [(op, content)])"

subsection \<open>Leak records\<close>

record leak =
  leaked_value :: string
  encoding_or_hash :: string
  leak_method :: string
  timestamp :: string

definition record_leak :: "string \<Rightarrow> string \<Rightarrow> string \<Rightarrow> string \<Rightarrow> leak" where
  "record_leak enc method val ts =
     \<lparr>leaked_value = val, encoding_or_hash = enc, leak_method = method, timestamp = ts\<rparr>"

text \<open>\<open>"-".join(xs)\<close>.\<close>

fun join_hyphen :: "string list \<Rightarrow> string" where
  "join_hyphen [] = []"
| "join_hyphen [x] = x"
| "join_hyphen (x # y # ys) = x @ ''-'' @ join_hyphen (y # ys)"

text \<open>
  The loop of \<open>check_field\<close> over the detector's results; \<open>leak_details\<close> is the list
  the loop appends to. \<open>result[-1]\<close> and \<open>result[0]\<close>, \<open>result[1]\<close> are read only
  under a length test that puts them in range.
\<close>

fun check_results :: "string \<Rightarrow> string \<Rightarrow> match_tuple list \<Rightarrow> leak list \<Rightarrow> leak list" where
  "check_results field ts [] leak_details = leak_details"
| "check_results field ts (result # results) leak_details =
     (if length result = 4 then
        check_results field ts results
          (leak_details @ [record_leak (join_hyphen (butlast result)) field (last result) ts])
      else if length result = 3 then
        check_results field ts results
          (leak_details @ [record_leak (join_hyphen (butlast result)) field (last result) ts])
      else if length result = 2 then
        check_results field ts results
          (leak_details @ [record_leak (result ! 0) field (result ! 1) ts])
      else check_results field ts results leak_details)"

definition check_field ::
  "string \<Rightarrow> string option \<Rightarrow> check_method \<Rightarrow> string \<Rightarrow> leak list \<times> call list" where
  "check_field field content method ts =
     (case content of
        None \<Rightarrow> ([], [])
      | Some c \<Rightarrow>
          (if c \<noteq> [] then
             (case method c of (results, calls) \<Rightarrow> (check_results field ts results [], calls))
           else ([], [])))"

subsection \<open>Search strings\<close>

definition general_exclusions :: "string list" where
  "general_exclusions =
     [''date_of_birth'', ''credit_card_expiry_month'', ''credit_card_expiry_year'',
      ''credit_card_cvv'', ''email_prefix'', ''email_suffix'']"

definition profile_exclusions :: "string list" where
  "profile_exclusions = [''payment_options'', ''house_number'']"

text \<open>
  The two closing loops of \<open>get_search_strings\<close>: every item of the dict whose key is
  not excluded and whose value is a string is appended to \<open>search_strings\<close>.
\<close>

fun append_items :: "string list \<Rightarrow> pydict \<Rightarrow> pyval list \<Rightarrow> pyval list" where
  "append_items exclusions [] search_strings = search_strings"
| "append_items exclusions ((key, val) # items) search_strings =
     (if key \<notin> set exclusions \<and> isinstance_str val
      then append_items exclusions items (search_strings @ [val])
      else append_items exclusions items search_strings)"

definition get_search_strings :: "pydict \<Rightarrow> pydict \<Rightarrow> string \<Rightarrow> py_error + pyval list" where
  "get_search_strings general profile site =
     (let email_prefix = dict_get_default general ''email_prefix'' (PStr []);
          email_suffix = dict_get_default general ''email_suffix'' (PStr []);
          email_basic = py_str email_prefix @ ''@'' @ py_str email_suffix;
          email_variant = py_str email_prefix @ ''+'' @ site @ ''@'' @ py_str email_suffix;
          search_strings = [PStr email_basic, PStr email_variant];
          first_name = dict_get_default general ''first_name'' (PStr []);
          last_name = dict_get_default general ''last_name'' (PStr []);
          full_name = strip (py_str first_name @ '' '' @ py_str last_name);
          search_strings = search_strings @ [PStr full_name];
          phone_number = dict_get profile ''local_format'';
          international_phone_number = dict_get profile ''international_format''
      in case slice_from 1 international_phone_number of
           Inl err \<Rightarrow> Inl err
         | Inr international_phone_number_stripped \<Rightarrow>
             (let search_strings = search_strings @
                    [phone_number, international_phone_number,
                     international_phone_number_stripped];
                  country_code = dict_get profile ''country_code''
              in case (if country_code = PStr ''+31'' then
                         (let zip_code = dict_get_default profile ''zip_code'' (PStr [])
                          in case slice_to 4 zip_code of
                               Inl err \<Rightarrow> Inl err
                             | Inr zip_head \<Rightarrow>
                                 (case slice_from 4 zip_code of
                                    Inl err \<Rightarrow> Inl err
                                  | Inr zip_tail \<Rightarrow>
                                      Inr (search_strings @
                                        [PStr (py_str zip_head @ '' '' @ py_str zip_tail)])))
                       else Inr search_strings) of
                   Inl err \<Rightarrow> Inl err
                 | Inr search_strings \<Rightarrow>
                     (let street = dict_get_default profile ''street'' (PStr []);
                          house_number = dict_get_default profile ''house_number'' (PStr []);
                          full_address = py_str street @ '' '' @ py_str house_number;
                          search_strings = search_strings @ [PStr full_address];
                          credit_card_expiry_month =
                            dict_get_default general ''credit_card_expiry_month'' (PStr []);
                          credit_card_expiry_year =
                            dict_get_default general ''credit_card_expiry_year'' (PStr []);
                          expiry_date = py_str credit_card_expiry_month @ ''/'' @
                            py_str credit_card_expiry_year;
                          search_strings = search_strings @ [PStr expiry_date];
                          credit_card_number =
                            dict_get_default general ''credit_card_number'' (PStr [])
                      in case replace_spaces credit_card_number of
                           Inl err \<Rightarrow> Inl err
                         | Inr cc_no_spaces \<Rightarrow>
                             Inr (append_items profile_exclusions profile
                                   (append_items general_exclusions general
                                     (search_strings @ [cc_no_spaces]))))))"

subsection \<open>Traffic records\<close>

record header =
  header_name :: string
  header_value :: string

text \<open>
  One entry of a capture, with the values the code reads from it: \<open>startedDateTime\<close>,
  \<open>request.url\<close>, \<open>request.headers\<close>, \<open>request.postData.text\<close>,
  \<open>response.headers\<close> and \<open>cookies\<close>. An absent key is \<open>None\<close>, or the empty list
  for the headers and the cookies.
\<close>

record har_entry =
  startedDateTime :: "string option"
  request_url :: "string option"
  request_headers :: "header list"
  postData_text :: "string option"
  response_headers :: "header list"
  cookies :: "pydict list"

fun extract_header_value :: "header list \<Rightarrow> string \<Rightarrow> string option" where
  "extract_header_value [] name = None"
| "extract_header_value (h # headers) name =
     (if lower (header_name h) = lower name then Some (header_value h)
      else extract_header_value headers name)"

text \<open>
  Domain resolution is an external library (tldextract): it is a parameter, giving for a
  URL the registered domain and the public suffix.
\<close>

record tld_result =
  tld_domain :: string
  tld_suffix :: string

type_synonym tldextract = "string \<Rightarrow> tld_result"

definition extract_domain :: "tldextract \<Rightarrow> string \<Rightarrow> string" where
  "extract_domain tld url = tld_domain (tld url) @ ''.'' @ tld_suffix (tld url)"

subsection \<open>Checking one entry\<close>

text \<open>\<open>all_leaks.extend(check_field(...))\<close>, the calls made being collected alongside.\<close>

definition extend_checked ::
  "leak list \<times> call list \<Rightarrow> leak list \<times> call list \<Rightarrow> leak list \<times> call list" where
  "extend_checked acc found = (fst acc @ fst found, snd acc @ snd found)"

fun check_cookies ::
  "detector \<Rightarrow> string \<Rightarrow> pydict list \<Rightarrow> leak list \<times> call list \<Rightarrow> leak list \<times> call list" where
  "check_cookies leak_detector ts [] acc = acc"
| "check_cookies leak_detector ts (cookie # rest) acc =
     (let cookie_str = py_str (dict_get cookie ''name'') @ ''='' @
            py_str (dict_get cookie ''value'')
      in check_cookies leak_detector ts rest
           (extend_checked acc
              (check_field ''Cookies'' (Some cookie_str)
                 (bound_method leak_detector CheckCookieStr) ts)))"

text \<open>
  The body of the loop over the entries checks the five fields of the entry, then its
  cookies, all into the one list \<open>all_leaks\<close>.
\<close>

definition check_fields :: "detector \<Rightarrow> string \<Rightarrow> har_entry \<Rightarrow> leak list \<times> call list" where
  "check_fields leak_detector ts entry =
     (let all_leaks = ([], []);
          all_leaks = extend_checked all_leaks
            (check_field ''url'' (request_url entry)
               (bound_method leak_detector CheckUrl) ts);
          all_leaks = extend_checked all_leaks
            (check_field ''referrer'' (extract_header_value (request_headers entry) ''Referer'')
               (bound_method leak_detector CheckReferrerStr) ts);
          all_leaks = extend_checked all_leaks
            (check_field ''postData'' (postData_text entry)
               (bound_method leak_detector CheckPostData) ts);
          all_leaks = extend_checked all_leaks
            (check_field ''location'' (extract_header_value (response_headers entry) ''Location'')
               (bound_method leak_detector CheckLocationHeader) ts)
      in extend_checked all_leaks
            (check_field ''setCookie'' (extract_header_value (response_headers entry) ''Set-Cookie'')
               (bound_method leak_detector CheckCookieStr) ts))"

definition check_entry :: "detector \<Rightarrow> string \<Rightarrow> har_entry \<Rightarrow> leak list \<times> call list" where
  "check_entry leak_detector ts entry =
     check_cookies leak_detector ts (cookies entry) (check_fields leak_detector ts entry)"

subsection \<open>Aggregation per domain\<close>

text \<open>
  \<open>leaks\<close> maps a domain to its leak records, in insertion order. The last two
  statements of the loop body: a new key gets the empty list, then the list under the key
  is extended.
\<close>

type_synonym domain_leaks = "(string \<times> leak list) list"

definition extend_domain :: "domain_leaks \<Rightarrow> string \<Rightarrow> leak list \<Rightarrow> domain_leaks" where
  "extend_domain leaks entry_url_domain all_leaks =
     (let leaks = (if entry_url_domain \<notin> set (map fst leaks)
                   then AList.update entry_url_domain [] leaks else leaks)
      in AList.update entry_url_domain
           ((case map_of leaks entry_url_domain of None \<Rightarrow> [] | Some old \<Rightarrow> old) @ all_leaks)
           leaks)"

text \<open>
  One iteration of the loop over the entries. The state is the dict \<open>leaks\<close> and the local
  variable \<open>entry_url_domain\<close>, which is unbound (\<open>None\<close>) until an entry with a
  non-empty URL assigns it. An entry comes with the reading of the UTC clock (in ISO format)
  taken when the loop reaches it; followed by \<open>Z\<close> it is the default of the timestamp.
\<close>

definition entry_timestamp :: "string \<times> har_entry \<Rightarrow> string" where
  "entry_timestamp timed_entry =
     (case startedDateTime (snd timed_entry) of
        None \<Rightarrow> fst timed_entry @ ''Z''
      | Some t \<Rightarrow> t)"

definition process_entry ::
  "tldextract \<Rightarrow> detector \<Rightarrow> domain_leaks \<times> string option \<Rightarrow> string \<times> har_entry \<Rightarrow>
     py_error + domain_leaks \<times> string option" where
  "process_entry tld leak_detector state timed_entry =
     (let leaks = fst state;
          entry = snd timed_entry;
          ts = entry_timestamp timed_entry;
          entry_url = request_url entry;
          entry_url_domain =
            (if truthy entry_url then
               (case entry_url of
                  None \<Rightarrow> snd state
                | Some url \<Rightarrow>
                    (if prefix ''blob:'' url then Some ''blob-url''
                     else Some (extract_domain tld url)))
             else snd state);
          all_leaks = fst (check_entry leak_detector ts entry)
      in if all_leaks \<noteq> [] then
           (case entry_url_domain of
              None \<Rightarrow> Inl UnboundLocalError
            | Some d \<Rightarrow> Inr (extend_domain leaks d all_leaks, entry_url_domain))
         else Inr (leaks, entry_url_domain))"

fun process_entries ::
  "tldextract \<Rightarrow> detector \<Rightarrow> domain_leaks \<times> string option \<Rightarrow> (string \<times> har_entry) list \<Rightarrow>
     py_error + domain_leaks \<times> string option" where
  "process_entries tld leak_detector state [] = Inr state"
| "process_entries tld leak_detector state (e # entries) =
     (case process_entry tld leak_detector state e of
        Inl err \<Rightarrow> Inl err
      | Inr state' \<Rightarrow> process_entries tld leak_detector state' entries)"

text \<open>A capture file either fails to load as JSON or gives its list of entries.\<close>

datatype har_file = Malformed | Capture "(string \<times> har_entry) list"

definition process_har_and_check_for_leaks ::
  "tldextract \<Rightarrow> har_file \<Rightarrow> string \<Rightarrow> detector \<Rightarrow> py_error + domain_leaks" where
  "process_har_and_check_for_leaks tld har site leak_detector =
     (case har of
        Malformed \<Rightarrow> Inl JSONDecodeError
      | Capture entries \<Rightarrow>
          (case process_entries tld leak_detector ([], None) entries of
             Inl err \<Rightarrow> Inl err
           | Inr state \<Rightarrow> Inr (fst state)))"

subsection \<open>All sites\<close>

record domain_group =
  domain :: string
  data_leaked :: "leak list"

record site_result =
  website :: string
  leaks :: "domain_group list"

definition format_site_results :: "string \<Rightarrow> domain_leaks \<Rightarrow> site_result" where
  "format_site_results site site_leaks =
     \<lparr>website = site,
      leaks = map (\<lambda>item. \<lparr>domain = fst item, data_leaked = snd item\<rparr>) site_leaks\<rparr>"

text \<open>
  What the base folder holds under one name: something that is not a directory, a
  directory without \<open>traffic.har\<close>, or a directory with that file.
\<close>

datatype folder_item = NotDirectory | WithoutHar | WithHar har_file

definition select_profile ::
  "(string \<times> string) list \<Rightarrow> (string \<times> pydict) list \<Rightarrow> string \<Rightarrow> pydict" where
  "select_profile site_country_map profiles site =
     (let country = (case map_of site_country_map site of None \<Rightarrow> ''dutch'' | Some c \<Rightarrow> c)
      in case map_of profiles country of None \<Rightarrow> [] | Some profile \<Rightarrow> profile)"

text \<open>
  One iteration of the main loop. The detector's constructor is external: it is the
  parameter \<open>initialize_leak_detector\<close>, from the search strings to a detector.
\<close>

definition process_site ::
  "tldextract \<Rightarrow> (pyval list \<Rightarrow> detector) \<Rightarrow> (string \<times> string) list \<Rightarrow> pydict \<Rightarrow>
     (string \<times> pydict) list \<Rightarrow> site_result list \<Rightarrow> string \<times> folder_item \<Rightarrow>
     py_error + site_result list" where
  "process_site tld initialize_leak_detector site_country_map general profiles final_results item =
     (case snd item of
        WithHar har \<Rightarrow>
          (let site = fst item;
               profile = select_profile site_country_map profiles site
           in case get_search_strings general profile site of
                Inl err \<Rightarrow> Inl err
              | Inr search_strings \<Rightarrow>
                  (let leak_detector = initialize_leak_detector search_strings
                   in case process_har_and_check_for_leaks tld har site leak_detector of
                        Inl err \<Rightarrow> Inl err
                      | Inr site_leaks \<Rightarrow>
                          (if site_leaks \<noteq> []
                           then Inr (final_results @ [format_site_results site site_leaks])
                           else Inr final_results)))
      | _ \<Rightarrow> Inr final_results)"

fun process_sites ::
  "tldextract \<Rightarrow> (pyval list \<Rightarrow> detector) \<Rightarrow> (string \<times> string) list \<Rightarrow> pydict \<Rightarrow>
     (string \<times> pydict) list \<Rightarrow> site_result list \<Rightarrow> (string \<times> folder_item) list \<Rightarrow>
     py_error + site_result list" where
  "process_sites tld init scm general profiles final_results [] = Inr final_results"
| "process_sites tld init scm general profiles final_results (item # items) =
     (case process_site tld init scm general profiles final_results item of
        Inl err \<Rightarrow> Inl err
      | Inr final_results' \<Rightarrow> process_sites tld init scm general profiles final_results' items)"

text \<open>
  The result is the content written to the results file, or \<open>None\<close> when no file is
  written.
\<close>

definition process_all_hars_and_check_for_leaks ::
  "tldextract \<Rightarrow> (pyval list \<Rightarrow> detector) \<Rightarrow> (string \<times> folder_item) list \<Rightarrow>
     (string \<times> string) list \<Rightarrow> pydict \<Rightarrow> (string \<times> pydict) list \<Rightarrow>
     py_error + site_result list option" where
  "process_all_hars_and_check_for_leaks tld init base_folder site_country_map general profiles =
     (case process_sites tld init site_country_map general profiles [] base_folder of
        Inl err \<Rightarrow> Inl err
      | Inr final_results \<Rightarrow>
          Inr (if final_results \<noteq> [] then Some final_results else None))"

subsection \<open>What one match tuple contributes\<close>

text \<open>
  A notion used to state and prove the properties of the loop of \<open>check_field\<close>: the
  records that one tuple adds to \<open>leak_details\<close>.
\<close>

definition tuple_leaks :: "string \<Rightarrow> string \<Rightarrow> match_tuple \<Rightarrow> leak list" where
  "tuple_leaks field ts r =
     (if length r = 2 \<or> length r = 3 \<or> length r = 4
      then [record_leak (join_hyphen (butlast r)) field (last r) ts] else [])"

text \<open>
  A notion used to state what happens to an entry without URL: the domain key of the most
  recent entry of a list that has a non-empty request URL, if there is one.
\<close>

fun most_recent_domain :: "tldextract \<Rightarrow> (string \<times> har_entry) list \<Rightarrow> string option" where
  "most_recent_domain tld [] = None"
| "most_recent_domain tld (e # entries) =
     (case most_recent_domain tld entries of
        Some d \<Rightarrow> Some d
      | None \<Rightarrow>
          (case request_url (snd e) of
             None \<Rightarrow> None
           | Some url \<Rightarrow>
               (if url = [] then None
                else if prefix ''blob:'' url then Some ''blob-url''
                else Some (extract_domain tld url))))"

text \<open>
  The leaks found for one site of the base folder that has a capture, and what the site adds
  to \<open>final_results\<close>: the two steps of one iteration of the main loop, named so that
  the properties of the whole run can be stated.
\<close>

definition site_leaks_of ::
  "tldextract \<Rightarrow> (pyval list \<Rightarrow> detector) \<Rightarrow> (string \<times> string) list \<Rightarrow> pydict \<Rightarrow>
     (string \<times> pydict) list \<Rightarrow> string \<Rightarrow> har_file \<Rightarrow> py_error + domain_leaks" where
  "site_leaks_of tld init scm general profiles site har =
     (case get_search_strings general (select_profile scm profiles site) site of
        Inl err \<Rightarrow> Inl err
      | Inr search_strings \<Rightarrow>
          process_har_and_check_for_leaks tld har site (init search_strings))"

definition site_contribution ::
  "tldextract \<Rightarrow> (pyval list \<Rightarrow> detector) \<Rightarrow> (string \<times> string) list \<Rightarrow> pydict \<Rightarrow>
     (string \<times> pydict) list \<Rightarrow> string \<times> folder_item \<Rightarrow> site_result list" where
  "site_contribution tld init scm general profiles item =
     (case snd item of
        WithHar har \<Rightarrow>
          (case site_leaks_of tld init scm general profiles (fst item) har of
             Inl err \<Rightarrow> []
           | Inr site_leaks \<Rightarrow>
               (if site_leaks \<noteq> [] then [format_site_results (fst item) site_leaks] else []))
      | _ \<Rightarrow> [])"

text \<open>
  The general fields that rule 11 of the specification names, in the specification's words:
  the string-valued fields other than those consumed by the special rules (first name, last
  name, credit-card number) and other than the six excluded ones. It is compared below with
  what the loop of \<open>get_search_strings\<close> appends.
\<close>

definition claimed_general_strings :: "pydict \<Rightarrow> pyval list" where
  "claimed_general_strings general =
     map snd (filter (\<lambda>item.
        fst item \<notin> set ([''first_name'', ''last_name'', ''credit_card_number''] @
                          general_exclusions)
        \<and> isinstance_str (snd item)) general)"

subsection \<open>Sample data\<close>

text \<open>Small inputs at which the statements below are evaluated.\<close>

abbreviation sample_tld :: tldextract where
  "sample_tld \<equiv> \<lambda>url. \<lparr>tld_domain = ''tracker'', tld_suffix = ''example''\<rparr>"

abbreviation sample_detector :: detector where
  "sample_detector \<equiv> \<lambda>op c. if c = ''sid=Ann'' then [[''urlencode'', ''Ann'']] else []"

abbreviation entry_url_quiet :: "string \<times> har_entry" where
  "entry_url_quiet \<equiv> (''2024-05-01T10:00:00'',
     \<lparr>startedDateTime = Some ''t1'', request_url = Some ''https://cdn.tracker.example/p'',
      request_headers = [], postData_text = None, response_headers = [], cookies = []\<rparr>)"

abbreviation entry_url_leaking :: "string \<times> har_entry" where
  "entry_url_leaking \<equiv> (''2024-05-01T10:00:01'',
     \<lparr>startedDateTime = None, request_url = Some ''https://cdn.tracker.example/p'',
      request_headers = [], postData_text = None, response_headers = [],
      cookies = [[(''name'', PStr ''sid''), (''value'', PStr ''Ann'')]]\<rparr>)"

abbreviation entry_url_leaking_later :: "string \<times> har_entry" where
  "entry_url_leaking_later \<equiv> (''2024-05-01T10:00:05'',
     \<lparr>startedDateTime = Some ''t5'', request_url = Some ''https://px.tracker.example/c'',
      request_headers = [], postData_text = None, response_headers = [],
      cookies = [[(''name'', PStr ''sid''), (''value'', PStr ''Ann'')]]\<rparr>)"

abbreviation entry_blob_leaking :: "string \<times> har_entry" where
  "entry_blob_leaking \<equiv> (''2024-05-01T10:00:02'',
     \<lparr>startedDateTime = Some ''t3'', request_url = Some ''blob:https://shop.example/77'',
      request_headers = [], postData_text = None, response_headers = [],
      cookies = [[(''name'', PStr ''sid''), (''value'', PStr ''Ann'')]]\<rparr>)"

abbreviation entry_nourl_leaking :: "string \<times> har_entry" where
  "entry_nourl_leaking \<equiv> (''2024-05-01T10:00:03'',
     \<lparr>startedDateTime = Some ''t2'', request_url = None,
      request_headers = [], postData_text = None, response_headers = [],
      cookies = [[(''name'', PStr ''sid''), (''value'', PStr ''Ann'')]]\<rparr>)"

abbreviation entry_nourl_quiet :: "string \<times> har_entry" where
  "entry_nourl_quiet \<equiv> (''2024-05-01T10:00:04'',
     \<lparr>startedDateTime = Some ''t0'', request_url = None,
      request_headers = [], postData_text = None, response_headers = [], cookies = []\<rparr>)"

abbreviation sample_general :: pydict where
  "sample_general \<equiv>
     [(''first_name'', PStr ''Ann''), (''last_name'', PStr ''Lee''),
      (''credit_card_number'', PStr ''4111 1111''), (''credit_card_cvv'', PStr ''123'')]"

abbreviation sample_profile :: pydict where
  "sample_profile \<equiv>
     [(''local_format'', PStr ''0612345678''), (''international_format'', PStr ''+31612345678''),
      (''country_code'', PStr ''+31''), (''zip_code'', PStr ''1234AB''),
      (''street'', PStr ''Damrak''), (''house_number'', PStr ''1'')]"

abbreviation sample_init :: "pyval list \<Rightarrow> detector" where
  "sample_init \<equiv> \<lambda>search_strings op c.
     if PStr ''Ann'' \<in> set search_strings \<and> c = ''sid=Ann''
     then [[''urlencode'', ''Ann'']] else []"

lemmas run_defs = process_entry_def check_entry_def check_fields_def check_field_def
  bound_method_def extend_checked_def record_leak_def dict_get_def py_str_def Let_def
  truthy_def entry_timestamp_def extend_domain_def extract_domain_def

section \<open>Properties of check_field\<close>

lemma check_results_acc:
  "check_results field ts results acc = acc @ check_results field ts results []"
proof (induction results arbitrary: acc)
  case Nil
  then show ?case by simp
next
  case (Cons r rs)
  show ?case
    using Cons.IH [of acc]
          Cons.IH [of "acc @ [record_leak (join_hyphen (butlast r)) field (last r) ts]"]
          Cons.IH [of "acc @ [record_leak (r ! 0) field (r ! 1) ts]"]
          Cons.IH [of "[record_leak (join_hyphen (butlast r)) field (last r) ts]"]
          Cons.IH [of "[record_leak (r ! 0) field (r ! 1) ts]"]
    by simp
qed

lemma pair_shape: "length r = 2 \<Longrightarrow> join_hyphen (butlast r) = r ! 0 \<and> last r = r ! 1"
  by (cases r; cases "tl r") auto

lemma check_results_concat:
  "check_results field ts results [] = concat (map (tuple_leaks field ts) results)"
proof (induction results)
  case Nil
  then show ?case by simp
next
  case (Cons r rs)
  then show ?case
    using check_results_acc [of field ts rs "[record_leak (join_hyphen (butlast r)) field (last r) ts]"]
      check_results_acc [of field ts rs "[record_leak (r ! 0) field (r ! 1) ts]"] pair_shape [of r]
    by (simp add: tuple_leaks_def)
qed

lemma check_field_nonempty:
  "content \<noteq> [] \<Longrightarrow>
   check_field field (Some content) (bound_method leak_detector op) ts =
     (concat (map (tuple_leaks field ts) (leak_detector op content)), [(op, content)])"
  by (simp add: check_field_def bound_method_def check_results_concat)

text \<open>
  Claim C3. For a non-empty content, every 4-element tuple \<open>[e1, e2, e3, v]\<close> that the
  check operation returns gives a leak record whose chain is \<open>e1-e2-e3\<close> and whose leaked
  value is \<open>v\<close>; a 3-element tuple \<open>[e1, e2, v]\<close> gives the chain \<open>e1-e2\<close> and the
  value \<open>v\<close>; a 2-element tuple \<open>[e1, v]\<close> gives the chain \<open>e1\<close> and the value \<open>v\<close>.
\<close>

theorem check_field_tuple_shapes:
  assumes "content \<noteq> []"
  shows "([e1, e2, e3, v] \<in> set (leak_detector op content) \<longrightarrow>
           \<lparr>leaked_value = v, encoding_or_hash = e1 @ ''-'' @ e2 @ ''-'' @ e3,
            leak_method = field, timestamp = ts\<rparr>
           \<in> set (fst (check_field field (Some content) (bound_method leak_detector op) ts)))
       \<and> ([e1, e2, v] \<in> set (leak_detector op content) \<longrightarrow>
           \<lparr>leaked_value = v, encoding_or_hash = e1 @ ''-'' @ e2,
            leak_method = field, timestamp = ts\<rparr>
           \<in> set (fst (check_field field (Some content) (bound_method leak_detector op) ts)))
       \<and> ([e1, v] \<in> set (leak_detector op content) \<longrightarrow>
           \<lparr>leaked_value = v, encoding_or_hash = e1,
            leak_method = field, timestamp = ts\<rparr>
           \<in> set (fst (check_field field (Some content) (bound_method leak_detector op) ts)))"
proof -
  have t4: "tuple_leaks field ts [e1, e2, e3, v] =
      [\<lparr>leaked_value = v, encoding_or_hash = e1 @ ''-'' @ e2 @ ''-'' @ e3,
        leak_method = field, timestamp = ts\<rparr>]"
    by (simp add: tuple_leaks_def record_leak_def)
  have t3: "tuple_leaks field ts [e1, e2, v] =
      [\<lparr>leaked_value = v, encoding_or_hash = e1 @ ''-'' @ e2,
        leak_method = field, timestamp = ts\<rparr>]"
    by (simp add: tuple_leaks_def record_leak_def)
  have t2: "tuple_leaks field ts [e1, v] =
      [\<lparr>leaked_value = v, encoding_or_hash = e1, leak_method = field, timestamp = ts\<rparr>]"
    by (simp add: tuple_leaks_def record_leak_def)
  have mem: "\<And>r x. r \<in> set (leak_detector op content) \<Longrightarrow> tuple_leaks field ts r = [x] \<Longrightarrow>
      x \<in> set (fst (check_field field (Some content) (bound_method leak_detector op) ts))"
    using assms by (force simp: check_field_nonempty)
  show ?thesis using mem [OF _ t4] mem [OF _ t3] mem [OF _ t2] by blast
qed

theorem check_field_tuple_shapes_witness:
  "''q=QW5u'' \<noteq> []
   \<and> [''urlencode'', ''base64'', ''md5'', ''Ann''] \<in> set ((\<lambda>op c.
         [[''urlencode'', ''base64'', ''md5'', ''Ann''], [''urlencode'', ''base64'', ''Ann''],
          [''urlencode'', ''Ann'']]) CheckPostData ''q=QW5u'')
   \<and> [''urlencode'', ''base64'', ''Ann''] \<in> set ((\<lambda>op c.
         [[''urlencode'', ''base64'', ''md5'', ''Ann''], [''urlencode'', ''base64'', ''Ann''],
          [''urlencode'', ''Ann'']]) CheckPostData ''q=QW5u'')
   \<and> [''urlencode'', ''Ann''] \<in> set ((\<lambda>op c.
         [[''urlencode'', ''base64'', ''md5'', ''Ann''], [''urlencode'', ''base64'', ''Ann''],
          [''urlencode'', ''Ann'']]) CheckPostData ''q=QW5u'')
   \<and> \<lparr>leaked_value = ''Ann'', encoding_or_hash = ''urlencode-base64-md5'',
       leak_method = ''postData'', timestamp = ''t0''\<rparr>
       \<in> set (fst (check_field ''postData'' (Some ''q=QW5u'')
            (bound_method (\<lambda>op c.
               [[''urlencode'', ''base64'', ''md5'', ''Ann''], [''urlencode'', ''base64'', ''Ann''],
                [''urlencode'', ''Ann'']]) CheckPostData) ''t0''))
   \<and> \<lparr>leaked_value = ''Ann'', encoding_or_hash = ''urlencode-base64'',
       leak_method = ''postData'', timestamp = ''t0''\<rparr>
       \<in> set (fst (check_field ''postData'' (Some ''q=QW5u'')
            (bound_method (\<lambda>op c.
               [[''urlencode'', ''base64'', ''md5'', ''Ann''], [''urlencode'', ''base64'', ''Ann''],
                [''urlencode'', ''Ann'']]) CheckPostData) ''t0''))
   \<and> \<lparr>leaked_value = ''Ann'', encoding_or_hash = ''urlencode'',
       leak_method = ''postData'', timestamp = ''t0''\<rparr>
       \<in> set (fst (check_field ''postData'' (Some ''q=QW5u'')
            (bound_method (\<lambda>op c.
               [[''urlencode'', ''base64'', ''md5'', ''Ann''], [''urlencode'', ''base64'', ''Ann''],
                [''urlencode'', ''Ann'']]) CheckPostData) ''t0''))"
  using check_field_tuple_shapes [of "''q=QW5u''" "''urlencode''" "''base64''" "''md5''" "''Ann''"
      "\<lambda>op c. [[''urlencode'', ''base64'', ''md5'', ''Ann''], [''urlencode'', ''base64'', ''Ann''],
          [''urlencode'', ''Ann'']]" CheckPostData "''postData''" "''t0''"]
  by simp

section \<open>Properties of the checks of one entry\<close>

lemma check_field_calls:
  "call \<in> set (snd (check_field field content (bound_method leak_detector op) ts)) \<Longrightarrow>
   snd call \<noteq> [] \<and> fst call = op \<and> content = Some (snd call)"
  by (cases content) (auto simp: check_field_def bound_method_def split: if_splits)

lemma check_results_method:
  "l \<in> set (check_results field ts results acc) \<Longrightarrow> l \<in> set acc \<or> leak_method l = field"
  by (subst (asm) check_results_acc)
     (auto simp: check_results_concat tuple_leaks_def record_leak_def split: if_splits)

lemma check_field_method:
  "l \<in> set (fst (check_field field content method ts)) \<Longrightarrow> leak_method l = field"
  by (cases content)
     (auto simp: check_field_def split: if_splits prod.splits dest: check_results_method)

lemma check_cookies_acc:
  "check_cookies leak_detector ts cookie_list acc =
     extend_checked acc (check_cookies leak_detector ts cookie_list ([], []))"
proof (induction cookie_list arbitrary: acc)
  case Nil
  then show ?case by (simp add: extend_checked_def)
next
  case (Cons c cs)
  show ?case
    by (simp add: Let_def) (subst Cons.IH, subst (2) Cons.IH, simp add: extend_checked_def)
qed

lemma check_cookies_made:
  "check_cookies leak_detector ts cookie_list ([], []) =
     (concat (map (\<lambda>cookie. fst (check_field ''Cookies''
          (Some (py_str (dict_get cookie ''name'') @ ''='' @ py_str (dict_get cookie ''value'')))
          (bound_method leak_detector CheckCookieStr) ts)) cookie_list),
      map (\<lambda>cookie. (CheckCookieStr,
          py_str (dict_get cookie ''name'') @ ''='' @ py_str (dict_get cookie ''value'')))
        cookie_list)"
proof (induction cookie_list)
  case Nil
  then show ?case by simp
next
  case (Cons c cs)
  show ?case
    by (simp add: Let_def) (subst check_cookies_acc, simp add: Cons.IH extend_checked_def check_field_nonempty)
qed

lemma check_entry_split:
  "check_entry leak_detector ts entry =
     (fst (check_fields leak_detector ts entry) @
        concat (map (\<lambda>cookie. fst (check_field ''Cookies''
          (Some (py_str (dict_get cookie ''name'') @ ''='' @ py_str (dict_get cookie ''value'')))
          (bound_method leak_detector CheckCookieStr) ts)) (cookies entry)),
      snd (check_fields leak_detector ts entry) @
        map (\<lambda>cookie. (CheckCookieStr,
          py_str (dict_get cookie ''name'') @ ''='' @ py_str (dict_get cookie ''value'')))
        (cookies entry))"
  unfolding check_entry_def
  by (subst check_cookies_acc) (simp add: check_cookies_made extend_checked_def)

text \<open>
  Claim C7. The cookies of an entry are checked one at a time, after the five fields: each
  cookie makes exactly one call, of the cookie-string operation, on the single string
  \<open>name=value\<close> built from that cookie alone, and the leaks of the cookies are the
  concatenation of what each of these calls gives.
\<close>

theorem cookies_checked_one_by_one:
  "check_entry leak_detector ts entry =
     (fst (check_fields leak_detector ts entry) @
        concat (map (\<lambda>cookie. fst (check_field ''Cookies''
          (Some (py_str (dict_get cookie ''name'') @ ''='' @ py_str (dict_get cookie ''value'')))
          (bound_method leak_detector CheckCookieStr) ts)) (cookies entry)),
      snd (check_fields leak_detector ts entry) @
        map (\<lambda>cookie. (CheckCookieStr,
          py_str (dict_get cookie ''name'') @ ''='' @ py_str (dict_get cookie ''value'')))
        (cookies entry))"
  by (rule check_entry_split)

lemma check_fields_calls:
  "call \<in> set (snd (check_fields leak_detector ts entry)) \<Longrightarrow> snd call \<noteq> []"
  by (auto simp: check_fields_def extend_checked_def Let_def dest: check_field_calls)

lemma check_fields_method:
  "l \<in> set (fst (check_fields leak_detector ts entry)) \<Longrightarrow>
   leak_method l \<in> {''url'', ''referrer'', ''postData'', ''location'', ''setCookie''}"
  by (auto simp: check_fields_def extend_checked_def Let_def dest: check_field_method)

text \<open>
  Claim C8. A field whose content is absent or the empty string is skipped: \<open>check_field\<close>
  makes no call and gives no leak record, whatever the check operation is. Every call made
  while an entry is checked has a non-empty argument.
\<close>

theorem empty_field_not_checked:
  "(content = None \<or> content = Some [] \<longrightarrow> check_field field content method ts = ([], []))
   \<and> (\<forall>call \<in> set (snd (check_entry leak_detector ts entry)). snd call \<noteq> [])"
proof -
  have "check_field field None method ts = ([], [])"
    and "check_field field (Some []) method ts = ([], [])"
    by (simp_all add: check_field_def)
  moreover have "\<forall>call \<in> set (snd (check_entry leak_detector ts entry)). snd call \<noteq> []"
    by (auto simp: check_entry_split dest: check_fields_calls)
  ultimately show ?thesis by auto
qed

text \<open>
  Claim C10. Every leak record that \<open>check_field\<close> produces has as its
  \<open>leak_method\<close> the field name the call was made under, whatever the check operation
  returns; for a whole entry the \<open>leak_method\<close> is one of url, referrer, postData,
  location, setCookie, Cookies.
\<close>

theorem leak_method_is_field_name:
  "(\<forall>l \<in> set (fst (check_field field content method ts)). leak_method l = field)
   \<and> (\<forall>l \<in> set (fst (check_entry leak_detector ts' entry)).
        leak_method l \<in> {''url'', ''referrer'', ''postData'', ''location'', ''setCookie'', ''Cookies''})"
proof -
  have "\<forall>l \<in> set (fst (check_field field content method ts)). leak_method l = field"
    by (blast dest: check_field_method)
  moreover have "\<forall>l \<in> set (fst (check_entry leak_detector ts' entry)).
        leak_method l \<in> {''url'', ''referrer'', ''postData'', ''location'', ''setCookie'', ''Cookies''}"
    by (auto simp: check_entry_split dest: check_fields_method check_field_method)
  ultimately show ?thesis by blast
qed

text \<open>
  Claim C9. A match tuple whose length is not 2, 3 or 4 is discarded without an error:
  \<open>check_field\<close> gives the same result as if the check operation had not returned the
  tuple, and the number of leak records is the number of tuples of length 2, 3 or 4.
\<close>

theorem other_lengths_discarded:
  assumes "content \<noteq> []"
    and "leak_detector op content = before @ result # after"
    and "length result \<notin> {2, 3, 4}"
  shows "check_field field (Some content) (bound_method leak_detector op) ts =
           check_field field (Some content)
             (bound_method (leak_detector(op := (leak_detector op)(content := before @ after))) op) ts
       \<and> length (fst (check_field field (Some content) (bound_method leak_detector op) ts)) =
           length (filter (\<lambda>r. length r \<in> {2, 3, 4}) (before @ after))"
proof -
  have "tuple_leaks field ts result = []"
    using assms(3) by (simp add: tuple_leaks_def)
  moreover have "length (concat (map (tuple_leaks field ts) rs)) =
      length (filter (\<lambda>r. length r \<in> {2, 3, 4}) rs)" for rs
    by (induction rs) (auto simp: tuple_leaks_def)
  ultimately show ?thesis
    using assms(1,2) by (simp add: check_field_nonempty)
qed


theorem cookies_checked_one_by_one_witness:
  "check_entry (\<lambda>op c. if c = ''sid=QW5u'' then [[''base64'', ''Ann'']] else [])
     ''t0''
     \<lparr>startedDateTime = Some ''t0'', request_url = None, request_headers = [],
      postData_text = Some [], response_headers = [],
      cookies = [[(''name'', PStr ''sid''), (''value'', PStr ''QW5u'')],
                 [(''name'', PStr ''uid'')]]\<rparr>
   = ([\<lparr>leaked_value = ''Ann'', encoding_or_hash = ''base64'', leak_method = ''Cookies'',
        timestamp = ''t0''\<rparr>],
      [(CheckCookieStr, ''sid=QW5u''), (CheckCookieStr, ''uid=None'')])"
  using cookies_checked_one_by_one [of "\<lambda>op c. if c = ''sid=QW5u'' then [[''base64'', ''Ann'']] else []"
     "''t0''"
     "\<lparr>startedDateTime = Some ''t0'', request_url = None, request_headers = [],
      postData_text = Some [], response_headers = [],
      cookies = [[(''name'', PStr ''sid''), (''value'', PStr ''QW5u'')],
                 [(''name'', PStr ''uid'')]]\<rparr>"]
  by (simp add: check_fields_def check_field_def bound_method_def extend_checked_def
        dict_get_def py_str_def record_leak_def Let_def)

theorem empty_field_not_checked_witness:
  "(Some [] = (None :: string option) \<or> Some [] = Some ([] :: string))
   \<and> check_field ''postData'' (Some []) (bound_method (\<lambda>op c. [[''base64'', ''Ann'']]) CheckPostData) ''t0''
       = ([], [])
   \<and> snd (check_entry (\<lambda>op c. [[''base64'', ''Ann'']]) ''t0''
       \<lparr>startedDateTime = Some ''t0'', request_url = None,
        request_headers = [\<lparr>header_name = ''referer'', header_value = ''https://a.example/''\<rparr>],
        postData_text = Some [],
        response_headers = [\<lparr>header_name = ''Location'', header_value = []\<rparr>],
        cookies = []\<rparr>)
       = [(CheckReferrerStr, ''https://a.example/'')]"
  using empty_field_not_checked [of "Some []" "''postData''"
      "bound_method (\<lambda>op c. [[''base64'', ''Ann'']]) CheckPostData" "''t0''"
      "\<lambda>op c. [[''base64'', ''Ann'']]"
      "\<lparr>startedDateTime = Some ''t0'', request_url = None,
        request_headers = [\<lparr>header_name = ''referer'', header_value = ''https://a.example/''\<rparr>],
        postData_text = Some [],
        response_headers = [\<lparr>header_name = ''Location'', header_value = []\<rparr>],
        cookies = []\<rparr>"]
  by (simp add: check_entry_def check_fields_def check_field_def bound_method_def
        extend_checked_def lower_def lower_char_def upper_letters_def lower_letters_def)

theorem other_lengths_discarded_witness:
  "''x'' \<noteq> []
   \<and> (\<lambda>op c. [[''Ann''], [''base64'', ''Ann'']]) CheckUrl ''x'' = [] @ [''Ann''] # [[''base64'', ''Ann'']]
   \<and> length [''Ann''] \<notin> {2 :: nat, 3, 4}
   \<and> check_field ''url'' (Some ''x'') (bound_method (\<lambda>op c. [[''Ann''], [''base64'', ''Ann'']]) CheckUrl) ''t0''
       = check_field ''url'' (Some ''x'') (bound_method (\<lambda>op c. [[''base64'', ''Ann'']]) CheckUrl) ''t0''
   \<and> length (fst (check_field ''url'' (Some ''x'')
         (bound_method (\<lambda>op c. [[''Ann''], [''base64'', ''Ann'']]) CheckUrl) ''t0'')) = 1"
  using other_lengths_discarded [of "''x''" "\<lambda>op c. [[''Ann''], [''base64'', ''Ann'']]" CheckUrl
      "[]" "[''Ann'']" "[[''base64'', ''Ann'']]" "''url''" "''t0''"]
  by (simp add: check_field_def bound_method_def)

theorem leak_method_is_field_name_witness:
  "fst (check_field ''postData'' (Some ''n=Ann'') (bound_method (\<lambda>op c. [[''urlencode'', ''Ann'']]) CheckPostData) ''t0'')
     = [\<lparr>leaked_value = ''Ann'', encoding_or_hash = ''urlencode'', leak_method = ''postData'',
         timestamp = ''t0''\<rparr>]
   \<and> leak_method \<lparr>leaked_value = ''Ann'', encoding_or_hash = ''urlencode'', leak_method = ''postData'',
         timestamp = ''t0''\<rparr> = ''postData''
   \<and> map leak_method (fst (check_entry (\<lambda>op c. [[''urlencode'', ''Ann'']]) ''t0''
       \<lparr>startedDateTime = Some ''t0'', request_url = Some ''https://a.example/?n=Ann'',
        request_headers = [], postData_text = None, response_headers = [],
        cookies = [[(''name'', PStr ''n''), (''value'', PStr ''Ann'')]]\<rparr>))
      = [''url'', ''Cookies'']"
  using leak_method_is_field_name [of "''postData''" "Some ''n=Ann''"
      "bound_method (\<lambda>op c. [[''urlencode'', ''Ann'']]) CheckPostData" "''t0''"
      "\<lambda>op c. [[''urlencode'', ''Ann'']]" "''t0''"
      "\<lparr>startedDateTime = Some ''t0'', request_url = Some ''https://a.example/?n=Ann'',
        request_headers = [], postData_text = None, response_headers = [],
        cookies = [[(''name'', PStr ''n''), (''value'', PStr ''Ann'')]]\<rparr>"]
  by (simp add: check_entry_def check_fields_def check_field_def bound_method_def
        extend_checked_def record_leak_def dict_get_def py_str_def Let_def)

section \<open>Properties of the aggregation per domain\<close>

lemma map_of_extend_domain:
  "map_of (extend_domain ls d all_leaks) =
     (map_of ls)(d \<mapsto> (case map_of ls d of None \<Rightarrow> [] | Some old \<Rightarrow> old) @ all_leaks)"
proof (cases "map_of ls d")
  case None
  then have "d \<notin> set (map fst ls)"
    by (simp add: map_of_eq_None_iff)
  then show ?thesis
    using None by (simp add: extend_domain_def Let_def update_conv')
next
  case (Some old)
  then have "d \<in> set (map fst ls)"
    using map_of_eq_None_iff [of ls d] by simp
  then show ?thesis
    using Some by (simp add: extend_domain_def Let_def update_conv')
qed

lemma process_entry_with_url:
  assumes "request_url (snd te) = Some url" and "url \<noteq> []"
  shows "process_entry tld det (ls, cur) te =
     (let key = (if prefix ''blob:'' url then ''blob-url'' else extract_domain tld url);
          found = fst (check_entry det (entry_timestamp te) (snd te))
      in if found \<noteq> [] then Inr (extend_domain ls key found, Some key)
         else Inr (ls, Some key))"
  using assms by (simp add: process_entry_def Let_def truthy_def)

lemma process_entry_without_url:
  assumes "\<not> truthy (request_url (snd te))"
  shows "process_entry tld det (ls, cur) te =
     (let found = fst (check_entry det (entry_timestamp te) (snd te))
      in if found \<noteq> [] then
           (case cur of None \<Rightarrow> Inl UnboundLocalError
            | Some d \<Rightarrow> Inr (extend_domain ls d found, Some d))
         else Inr (ls, cur))"
  using assms by (simp add: process_entry_def Let_def split: option.splits)

lemma process_entries_append:
  "process_entries tld det state (xs @ ys) =
     (case process_entries tld det state xs of
        Inl err \<Rightarrow> Inl err
      | Inr state' \<Rightarrow> process_entries tld det state' ys)"
  by (induction xs arbitrary: state) (auto split: sum.splits)

lemma process_entry_domain:
  "process_entry tld det (ls, cur) te = Inr (ls', cur') \<Longrightarrow>
   cur' = (case most_recent_domain tld [te] of None \<Rightarrow> cur | Some d \<Rightarrow> Some d)"
  by (auto simp: process_entry_def Let_def truthy_def split: option.splits if_splits)

lemma most_recent_domain_snoc:
  "most_recent_domain tld (xs @ ys) =
     (case most_recent_domain tld ys of
        Some d \<Rightarrow> Some d | None \<Rightarrow> most_recent_domain tld xs)"
  by (induction xs) (auto split: option.splits)

lemma process_entries_domain:
  "process_entries tld det (ls, cur) entries = Inr (ls', cur') \<Longrightarrow>
   cur' = (case most_recent_domain tld entries of None \<Rightarrow> cur | Some d \<Rightarrow> Some d)"
proof (induction entries arbitrary: ls cur)
  case Nil
  then show ?case by simp
next
  case (Cons e es)
  from Cons.prems obtain l1 d1 where
    step: "process_entry tld det (ls, cur) e = Inr (l1, d1)"
    and rest: "process_entries tld det (l1, d1) es = Inr (ls', cur')"
    by (auto split: sum.splits)
  have d1: "d1 = (case most_recent_domain tld [e] of None \<Rightarrow> cur | Some d \<Rightarrow> Some d)"
    by (rule process_entry_domain [OF step])
  have "cur' = (case most_recent_domain tld es of None \<Rightarrow> d1 | Some d \<Rightarrow> Some d)"
    by (rule Cons.IH [OF rest])
  then show ?case
    using d1 most_recent_domain_snoc [of tld "[e]" es]
    by (auto split: option.splits)
qed

text \<open>
  Claim C6, as amended. An entry without request URL (absent or empty) in which leaks are
  found does not assign the domain variable. When no earlier entry of the capture has a
  non-empty URL, processing fails with \<open>UnboundLocalError\<close>; otherwise the leaks are
  appended under the domain key of the most recent earlier entry that has one.
\<close>

theorem entry_without_url:
  assumes "process_entries tld leak_detector ([], None) earlier = Inr (ls, cur)"
    and "\<not> truthy (request_url (snd te))"
    and "fst (check_entry leak_detector (entry_timestamp te) (snd te)) \<noteq> []"
  shows "(most_recent_domain tld earlier = None \<longrightarrow>
            process_entries tld leak_detector ([], None) (earlier @ [te]) = Inl UnboundLocalError)
       \<and> (\<forall>d. most_recent_domain tld earlier = Some d \<longrightarrow>
            (\<exists>ls'. process_entries tld leak_detector ([], None) (earlier @ [te]) =
                         Inr (ls', Some d)
               \<and> map_of ls' d =
                   Some ((case map_of ls d of None \<Rightarrow> [] | Some old \<Rightarrow> old) @
                         fst (check_entry leak_detector (entry_timestamp te) (snd te)))
               \<and> (\<forall>k. k \<noteq> d \<longrightarrow> map_of ls' k = map_of ls k)))"
proof -
  have cur_eq: "cur = most_recent_domain tld earlier"
    using process_entries_domain [OF assms(1)] by (simp split: option.splits)
  have run: "process_entries tld leak_detector ([], None) (earlier @ [te]) =
      process_entry tld leak_detector (ls, cur) te"
    using assms(1) by (simp add: process_entries_append split: sum.splits)
  show ?thesis
    using assms(2,3) cur_eq
    by (simp add: run process_entry_without_url Let_def map_of_extend_domain split: option.splits)
qed


text \<open>
  Claim C6 as stated says that processing fails at the first entry that has no URL and
  yields a match. It does not when an earlier entry had a URL; and it does fail at an entry
  that is not the first one of the capture when no earlier entry had a URL.
\<close>

theorem entry_without_url_counterexample:
  "process_entries sample_tld sample_detector ([], None) [entry_url_quiet, entry_nourl_leaking] =
     Inr ([(''tracker.example'', [\<lparr>leaked_value = ''Ann'', encoding_or_hash = ''urlencode'',
              leak_method = ''Cookies'', timestamp = ''t2''\<rparr>])], Some ''tracker.example'')
   \<and> process_entries sample_tld sample_detector ([], None) [entry_nourl_quiet, entry_nourl_leaking] =
     Inl UnboundLocalError"
  by (simp add: run_defs)

theorem entry_without_url_witness:
  "process_entries sample_tld sample_detector ([], None) [entry_url_quiet] =
     Inr ([], Some ''tracker.example'')
   \<and> \<not> truthy (request_url (snd entry_nourl_leaking))
   \<and> fst (check_entry sample_detector (entry_timestamp entry_nourl_leaking)
         (snd entry_nourl_leaking)) \<noteq> []
   \<and> most_recent_domain sample_tld [entry_url_quiet] = Some ''tracker.example''
   \<and> process_entries sample_tld sample_detector ([], None)
         ([entry_url_quiet] @ [entry_nourl_leaking]) =
       Inr ([(''tracker.example'', [\<lparr>leaked_value = ''Ann'', encoding_or_hash = ''urlencode'',
              leak_method = ''Cookies'', timestamp = ''t2''\<rparr>])], Some ''tracker.example'')
   \<and> process_entries sample_tld sample_detector ([], None) [entry_nourl_quiet] = Inr ([], None)
   \<and> most_recent_domain sample_tld [entry_nourl_quiet] = None
   \<and> process_entries sample_tld sample_detector ([], None)
         ([entry_nourl_quiet] @ [entry_nourl_leaking]) = Inl UnboundLocalError"
  using entry_without_url [of sample_tld sample_detector "[entry_url_quiet]" "[]"
      "Some ''tracker.example''" entry_nourl_leaking]
    entry_without_url [of sample_tld sample_detector "[entry_nourl_quiet]" "[]"
      None entry_nourl_leaking]
  by (simp add: run_defs)

lemma process_entry_keeps_groups:
  assumes "process_entry tld det (ls, cur) te = Inr (ls', cur')"
    and "map_of ls k = Some g"
  shows "\<exists>after. map_of ls' k = Some (g @ after)"
proof (cases "fst (check_entry det (entry_timestamp te) (snd te)) = []")
  case True
  then have "ls' = ls"
    using assms(1) by (simp add: process_entry_def Let_def)
  then show ?thesis using assms(2) by simp
next
  case False
  then obtain d where "ls' = extend_domain ls d (fst (check_entry det (entry_timestamp te) (snd te)))"
    using assms(1) by (auto simp: process_entry_def Let_def split: option.splits if_splits)
  then show ?thesis
    using assms(2) by (cases "k = d") (simp_all add: map_of_extend_domain)
qed

lemma process_entries_keeps_groups:
  "process_entries tld det (ls, cur) entries = Inr (ls', cur') \<Longrightarrow> map_of ls k = Some g \<Longrightarrow>
   \<exists>after. map_of ls' k = Some (g @ after)"
proof (induction entries arbitrary: ls cur g)
  case Nil
  then show ?case by simp
next
  case (Cons e es)
  from Cons.prems(1) obtain l1 c1 where
    step: "process_entry tld det (ls, cur) e = Inr (l1, c1)"
    and rest: "process_entries tld det (l1, c1) es = Inr (ls', cur')"
    by (auto split: sum.splits)
  from process_entry_keeps_groups [OF step Cons.prems(2)] obtain a1 where
    a1: "map_of l1 k = Some (g @ a1)" by blast
  from Cons.IH [OF rest a1] obtain a2 where "map_of ls' k = Some ((g @ a1) @ a2)" by blast
  then show ?case by simp
qed

text \<open>
  Claim C5. In a capture that is processed without error, take an entry with a non-empty
  request URL in which leaks are found. Its domain key is the sentinel \<open>blob-url\<close> when
  the URL starts with \<open>blob:\<close>, and otherwise the domain that the domain-resolution
  collaborator gives for the URL. Processing the entry appends its leaks to the list kept
  under that key and changes no other key; and in the mapping that
  \<open>process_har_and_check_for_leaks\<close> returns, the list under that key is the list kept
  there before the entry, then the leaks of the entry, then what later entries add.
\<close>

theorem leaks_keyed_by_url_domain:
  assumes "process_har_and_check_for_leaks tld (Capture (earlier @ te # later)) site
             leak_detector = Inr site_leaks"
    and "request_url (snd te) = Some url" and "url \<noteq> []"
    and "fst (check_entry leak_detector (entry_timestamp te) (snd te)) \<noteq> []"
  shows "\<exists>ls cur ls' after.
     process_entries tld leak_detector ([], None) earlier = Inr (ls, cur)
     \<and> process_entries tld leak_detector ([], None) (earlier @ [te]) =
         Inr (ls', Some (if prefix ''blob:'' url then ''blob-url'' else extract_domain tld url))
     \<and> map_of ls' =
         (map_of ls)
           ((if prefix ''blob:'' url then ''blob-url'' else extract_domain tld url) \<mapsto>
              (case map_of ls (if prefix ''blob:'' url then ''blob-url''
                               else extract_domain tld url) of
                 None \<Rightarrow> [] | Some old \<Rightarrow> old) @
              fst (check_entry leak_detector (entry_timestamp te) (snd te)))
     \<and> map_of site_leaks (if prefix ''blob:'' url then ''blob-url'' else extract_domain tld url) =
         Some ((case map_of ls (if prefix ''blob:'' url then ''blob-url''
                                else extract_domain tld url) of
                  None \<Rightarrow> [] | Some old \<Rightarrow> old) @
               fst (check_entry leak_detector (entry_timestamp te) (snd te)) @ after)"
proof -
  let ?key = "if prefix ''blob:'' url then ''blob-url'' else extract_domain tld url"
  let ?found = "fst (check_entry leak_detector (entry_timestamp te) (snd te))"
  from assms(1) obtain cur_end where
    run: "process_entries tld leak_detector ([], None) (earlier @ te # later) =
            Inr (site_leaks, cur_end)"
    by (auto simp: process_har_and_check_for_leaks_def split: sum.splits)
  from run obtain ls cur where
    pre: "process_entries tld leak_detector ([], None) earlier = Inr (ls, cur)"
    and tail: "process_entries tld leak_detector (ls, cur) (te # later) = Inr (site_leaks, cur_end)"
    by (auto simp: process_entries_append split: sum.splits)
  let ?old = "case map_of ls ?key of None \<Rightarrow> [] | Some old \<Rightarrow> old"
  have step: "process_entry tld leak_detector (ls, cur) te =
      Inr (extend_domain ls ?key ?found, Some ?key)"
    using assms(2,3,4) by (simp add: process_entry_with_url Let_def)
  have upto: "process_entries tld leak_detector ([], None) (earlier @ [te]) =
      Inr (extend_domain ls ?key ?found, Some ?key)"
    using pre step by (simp add: process_entries_append)
  have rest: "process_entries tld leak_detector (extend_domain ls ?key ?found, Some ?key) later =
      Inr (site_leaks, cur_end)"
    using tail step by simp
  have mid: "map_of (extend_domain ls ?key ?found) = (map_of ls)(?key \<mapsto> ?old @ ?found)"
    by (rule map_of_extend_domain)
  then have "map_of (extend_domain ls ?key ?found) ?key = Some (?old @ ?found)"
    by simp
  from process_entries_keeps_groups [OF rest this] obtain after where
    "map_of site_leaks ?key = Some ((?old @ ?found) @ after)" by blast
  then have fin: "map_of site_leaks ?key = Some (?old @ ?found @ after)" by simp
  show ?thesis
    using pre upto mid fin by blast
qed

theorem leaks_keyed_by_url_domain_witness:
  "process_har_and_check_for_leaks sample_tld
      (Capture ([entry_url_leaking, entry_blob_leaking] @ entry_url_leaking_later # []))
      ''shop.example'' sample_detector =
     Inr [(''tracker.example'',
            [\<lparr>leaked_value = ''Ann'', encoding_or_hash = ''urlencode'',
               leak_method = ''Cookies'', timestamp = ''2024-05-01T10:00:01Z''\<rparr>,
             \<lparr>leaked_value = ''Ann'', encoding_or_hash = ''urlencode'',
               leak_method = ''Cookies'', timestamp = ''t5''\<rparr>]),
          (''blob-url'',
            [\<lparr>leaked_value = ''Ann'', encoding_or_hash = ''urlencode'',
               leak_method = ''Cookies'', timestamp = ''t3''\<rparr>])]
   \<and> request_url (snd entry_url_leaking_later) = Some ''https://px.tracker.example/c''
   \<and> ''https://px.tracker.example/c'' \<noteq> []
   \<and> fst (check_entry sample_detector (entry_timestamp entry_url_leaking_later)
         (snd entry_url_leaking_later)) \<noteq> []
   \<and> process_har_and_check_for_leaks sample_tld
      (Capture ([entry_url_leaking] @ entry_blob_leaking # [entry_url_leaking_later]))
      ''shop.example'' sample_detector =
     Inr [(''tracker.example'',
            [\<lparr>leaked_value = ''Ann'', encoding_or_hash = ''urlencode'',
               leak_method = ''Cookies'', timestamp = ''2024-05-01T10:00:01Z''\<rparr>,
             \<lparr>leaked_value = ''Ann'', encoding_or_hash = ''urlencode'',
               leak_method = ''Cookies'', timestamp = ''t5''\<rparr>]),
          (''blob-url'',
            [\<lparr>leaked_value = ''Ann'', encoding_or_hash = ''urlencode'',
               leak_method = ''Cookies'', timestamp = ''t3''\<rparr>])]
   \<and> request_url (snd entry_blob_leaking) = Some ''blob:https://shop.example/77''
   \<and> ''blob:https://shop.example/77'' \<noteq> []
   \<and> fst (check_entry sample_detector (entry_timestamp entry_blob_leaking)
         (snd entry_blob_leaking)) \<noteq> []
   \<and> process_entries sample_tld sample_detector ([], None) [entry_url_leaking] =
       Inr ([(''tracker.example'',
            [\<lparr>leaked_value = ''Ann'', encoding_or_hash = ''urlencode'',
               leak_method = ''Cookies'', timestamp = ''2024-05-01T10:00:01Z''\<rparr>])],
            Some ''tracker.example'')
   \<and> process_entries sample_tld sample_detector ([], None)
         ([entry_url_leaking] @ [entry_blob_leaking]) =
       Inr ([(''tracker.example'',
            [\<lparr>leaked_value = ''Ann'', encoding_or_hash = ''urlencode'',
               leak_method = ''Cookies'', timestamp = ''2024-05-01T10:00:01Z''\<rparr>]),
          (''blob-url'',
            [\<lparr>leaked_value = ''Ann'', encoding_or_hash = ''urlencode'',
               leak_method = ''Cookies'', timestamp = ''t3''\<rparr>])], Some ''blob-url'')"
proof -
  have a: "process_har_and_check_for_leaks sample_tld
      (Capture ([entry_url_leaking, entry_blob_leaking] @ entry_url_leaking_later # []))
      ''shop.example'' sample_detector =
     Inr [(''tracker.example'',
            [\<lparr>leaked_value = ''Ann'', encoding_or_hash = ''urlencode'',
               leak_method = ''Cookies'', timestamp = ''2024-05-01T10:00:01Z''\<rparr>,
             \<lparr>leaked_value = ''Ann'', encoding_or_hash = ''urlencode'',
               leak_method = ''Cookies'', timestamp = ''t5''\<rparr>]),
          (''blob-url'',
            [\<lparr>leaked_value = ''Ann'', encoding_or_hash = ''urlencode'',
               leak_method = ''Cookies'', timestamp = ''t3''\<rparr>])]"
    by (simp add: process_har_and_check_for_leaks_def run_defs)
  have b: "process_har_and_check_for_leaks sample_tld
      (Capture ([entry_url_leaking] @ entry_blob_leaking # [entry_url_leaking_later]))
      ''shop.example'' sample_detector =
     Inr [(''tracker.example'',
            [\<lparr>leaked_value = ''Ann'', encoding_or_hash = ''urlencode'',
               leak_method = ''Cookies'', timestamp = ''2024-05-01T10:00:01Z''\<rparr>,
             \<lparr>leaked_value = ''Ann'', encoding_or_hash = ''urlencode'',
               leak_method = ''Cookies'', timestamp = ''t5''\<rparr>]),
          (''blob-url'',
            [\<lparr>leaked_value = ''Ann'', encoding_or_hash = ''urlencode'',
               leak_method = ''Cookies'', timestamp = ''t3''\<rparr>])]"
    by (simp add: process_har_and_check_for_leaks_def run_defs)
  have c: "fst (check_entry sample_detector (entry_timestamp entry_url_leaking_later)
         (snd entry_url_leaking_later)) \<noteq> []"
    and d: "fst (check_entry sample_detector (entry_timestamp entry_blob_leaking)
         (snd entry_blob_leaking)) \<noteq> []"
    by (simp_all add: run_defs)
  have e: "process_entries sample_tld sample_detector ([], None) [entry_url_leaking] =
       Inr ([(''tracker.example'',
            [\<lparr>leaked_value = ''Ann'', encoding_or_hash = ''urlencode'',
               leak_method = ''Cookies'', timestamp = ''2024-05-01T10:00:01Z''\<rparr>])],
            Some ''tracker.example'')"
    and f: "process_entries sample_tld sample_detector ([], None)
         ([entry_url_leaking] @ [entry_blob_leaking]) =
       Inr ([(''tracker.example'',
            [\<lparr>leaked_value = ''Ann'', encoding_or_hash = ''urlencode'',
               leak_method = ''Cookies'', timestamp = ''2024-05-01T10:00:01Z''\<rparr>]),
          (''blob-url'',
            [\<lparr>leaked_value = ''Ann'', encoding_or_hash = ''urlencode'',
               leak_method = ''Cookies'', timestamp = ''t3''\<rparr>])], Some ''blob-url'')"
    by (simp_all add: run_defs)
  show ?thesis
    using leaks_keyed_by_url_domain [OF a _ _ c, of "''https://px.tracker.example/c''"]
      leaks_keyed_by_url_domain [OF b _ _ d, of "''blob:https://shop.example/77''"]
      a b c d e f
    by simp
qed

section \<open>Properties of the run over all sites\<close>

lemma process_site_Inr:
  "process_site tld init scm general profiles acc item = Inr res \<Longrightarrow>
   res = acc @ site_contribution tld init scm general profiles item
   \<and> (\<forall>har. snd item = WithHar har \<longrightarrow>
         (\<exists>l. site_leaks_of tld init scm general profiles (fst item) har = Inr l))"
  by (auto simp: process_site_def site_contribution_def site_leaks_of_def Let_def
      split: folder_item.splits sum.splits if_splits)

lemma process_sites_Inr:
  "process_sites tld init scm general profiles acc items = Inr res \<Longrightarrow>
   res = acc @ concat (map (site_contribution tld init scm general profiles) items)
   \<and> (\<forall>item \<in> set items. \<forall>har. snd item = WithHar har \<longrightarrow>
         (\<exists>l. site_leaks_of tld init scm general profiles (fst item) har = Inr l))"
proof (induction items arbitrary: acc)
  case Nil
  then show ?case by simp
next
  case (Cons item items)
  from Cons.prems obtain mid where
    step: "process_site tld init scm general profiles acc item = Inr mid"
    and rest: "process_sites tld init scm general profiles mid items = Inr res"
    by (auto split: sum.splits)
  show ?case
    using process_site_Inr [OF step] Cons.IH [OF rest] by auto
qed

lemma site_contribution_member:
  assumes "r \<in> set (site_contribution tld init scm general profiles item)"
  shows "\<exists>har l. snd item = WithHar har
     \<and> site_leaks_of tld init scm general profiles (fst item) har = Inr l
     \<and> l \<noteq> [] \<and> r = format_site_results (fst item) l"
proof (cases "snd item")
  case (WithHar har)
  show ?thesis
  proof (cases "site_leaks_of tld init scm general profiles (fst item) har")
    case (Inl err)
    with WithHar assms show ?thesis by (simp add: site_contribution_def)
  next
    case (Inr l)
    with WithHar assms show ?thesis by (auto simp: site_contribution_def split: if_splits)
  qed
qed (use assms in \<open>simp_all add: site_contribution_def\<close>)

lemma extend_domain_Nil: "extend_domain [] d found = [(d, found)]"
  by (simp add: extend_domain_def)

lemma extend_domain_Cons:
  "extend_domain (p # ls) d found =
     (if fst p = d then (d, snd p @ found) # ls else p # extend_domain ls d found)"
  by (cases p) (auto simp: extend_domain_def Let_def)

lemma extend_domain_values:
  "\<forall>p \<in> set ls. snd p \<noteq> [] \<Longrightarrow> found \<noteq> [] \<Longrightarrow>
   \<forall>p \<in> set (extend_domain ls d found). snd p \<noteq> []"
  by (induction ls) (auto simp: extend_domain_Nil extend_domain_Cons)

lemma process_entry_values:
  assumes "process_entry tld det (ls, cur) te = Inr (ls', cur')"
    and "\<forall>p \<in> set ls. snd p \<noteq> []"
  shows "\<forall>p \<in> set ls'. snd p \<noteq> []"
proof (cases "fst (check_entry det (entry_timestamp te) (snd te)) = []")
  case True
  then have "ls' = ls"
    using assms(1) by (simp add: process_entry_def Let_def)
  then show ?thesis using assms(2) by simp
next
  case False
  then obtain d where "ls' = extend_domain ls d (fst (check_entry det (entry_timestamp te) (snd te)))"
    using assms(1) by (auto simp: process_entry_def Let_def split: option.splits if_splits)
  then show ?thesis
    using extend_domain_values [OF assms(2) False] by simp
qed

lemma process_entry_quiet:
  "process_entry tld det (ls, cur) te = Inr (ls', cur') \<Longrightarrow>
   fst (check_entry det (entry_timestamp te) (snd te)) = [] \<Longrightarrow> ls' = ls"
  by (simp add: process_entry_def Let_def)

lemma process_entries_values:
  "process_entries tld det (ls, cur) entries = Inr (ls', cur') \<Longrightarrow>
   \<forall>p \<in> set ls. snd p \<noteq> [] \<Longrightarrow> \<forall>p \<in> set ls'. snd p \<noteq> []"
proof (induction entries arbitrary: ls cur)
  case Nil
  then show ?case by simp
next
  case (Cons e es)
  from Cons.prems(1) obtain l1 c1 where
    step: "process_entry tld det (ls, cur) e = Inr (l1, c1)"
    and rest: "process_entries tld det (l1, c1) es = Inr (ls', cur')"
    by (auto split: sum.splits)
  show ?case
    by (rule Cons.IH [OF rest process_entry_values [OF step Cons.prems(2)]])
qed

lemma process_entries_quiet:
  "process_entries tld det (ls, cur) entries = Inr (ls', cur') \<Longrightarrow>
   \<forall>te \<in> set entries. fst (check_entry det (entry_timestamp te) (snd te)) = [] \<Longrightarrow> ls' = ls"
proof (induction entries arbitrary: ls cur)
  case Nil
  then show ?case by simp
next
  case (Cons e es)
  from Cons.prems(1) obtain l1 c1 where
    step: "process_entry tld det (ls, cur) e = Inr (l1, c1)"
    and rest: "process_entries tld det (l1, c1) es = Inr (ls', cur')"
    by (auto split: sum.splits)
  have "l1 = ls" using process_entry_quiet [OF step] Cons.prems(2) by simp
  moreover have "ls' = l1" using Cons.IH [OF rest] Cons.prems(2) by simp
  ultimately show ?case by simp
qed

lemma process_har_Inr:
  assumes "process_har_and_check_for_leaks tld har site det = Inr site_leaks"
  shows "(\<forall>p \<in> set site_leaks. snd p \<noteq> [])
       \<and> (\<exists>entries. har = Capture entries
             \<and> (site_leaks \<noteq> [] \<longrightarrow>
                  (\<exists>te \<in> set entries. fst (check_entry det (entry_timestamp te) (snd te)) \<noteq> [])))"
proof -
  from assms obtain entries cur where har: "har = Capture entries"
    and run: "process_entries tld det ([], None) entries = Inr (site_leaks, cur)"
    by (cases har) (auto simp: process_har_and_check_for_leaks_def split: sum.splits)
  have "\<forall>p \<in> set site_leaks. snd p \<noteq> []"
    using process_entries_values [OF run] by simp
  moreover have "site_leaks \<noteq> [] \<longrightarrow>
      (\<exists>te \<in> set entries. fst (check_entry det (entry_timestamp te) (snd te)) \<noteq> [])"
    using process_entries_quiet [OF run] by blast
  ultimately show ?thesis using har by blast
qed

text \<open>
  Claim C4. When the run over the base folder ends without error: if a results file is
  written, its list is not empty, and every site in it has a non-empty list of domain groups,
  each with at least one leak record, and has a capture in which at least one entry produced
  a leak; and no file is written exactly when every site with a capture has no leaks.
\<close>

theorem output_only_for_leaking_sites:
  assumes "process_all_hars_and_check_for_leaks tld init base_folder scm general profiles =
             Inr written"
  shows "(\<forall>results. written = Some results \<longrightarrow>
            results \<noteq> []
            \<and> (\<forall>r \<in> set results.
                 leaks r \<noteq> []
                 \<and> (\<forall>g \<in> set (leaks r). data_leaked g \<noteq> [])
                 \<and> (\<exists>entries search_strings.
                       (website r, WithHar (Capture entries)) \<in> set base_folder
                       \<and> get_search_strings general (select_profile scm profiles (website r))
                           (website r) = Inr search_strings
                       \<and> (\<exists>te \<in> set entries.
                             fst (check_entry (init search_strings) (entry_timestamp te) (snd te))
                               \<noteq> []))))
       \<and> ((written = None) =
            (\<forall>item \<in> set base_folder. \<forall>har. snd item = WithHar har \<longrightarrow>
               site_leaks_of tld init scm general profiles (fst item) har = Inr []))"
proof -
  from assms obtain final_results where
    run: "process_sites tld init scm general profiles [] base_folder = Inr final_results"
    and written: "written = (if final_results \<noteq> [] then Some final_results else None)"
    by (auto simp: process_all_hars_and_check_for_leaks_def split: sum.splits)
  have final: "final_results = concat (map (site_contribution tld init scm general profiles) base_folder)"
    and ok: "\<forall>item \<in> set base_folder. \<forall>har. snd item = WithHar har \<longrightarrow>
         (\<exists>l. site_leaks_of tld init scm general profiles (fst item) har = Inr l)"
    using process_sites_Inr [OF run] by simp_all
  have each: "leaks r \<noteq> []
      \<and> (\<forall>g \<in> set (leaks r). data_leaked g \<noteq> [])
      \<and> (\<exists>entries search_strings.
            (website r, WithHar (Capture entries)) \<in> set base_folder
            \<and> get_search_strings general (select_profile scm profiles (website r))
                (website r) = Inr search_strings
            \<and> (\<exists>te \<in> set entries.
                  fst (check_entry (init search_strings) (entry_timestamp te) (snd te)) \<noteq> []))"
    if r: "r \<in> set final_results" for r
  proof -
    from r final obtain item where item: "item \<in> set base_folder"
      and rin: "r \<in> set (site_contribution tld init scm general profiles item)"
      by auto
    from rin obtain har l where har: "snd item = WithHar har"
      and l: "site_leaks_of tld init scm general profiles (fst item) har = Inr l"
      and ne: "l \<noteq> []" and req: "r = format_site_results (fst item) l"
      using site_contribution_member by blast
    from l obtain ss where ss: "get_search_strings general
          (select_profile scm profiles (fst item)) (fst item) = Inr ss"
      and ph: "process_har_and_check_for_leaks tld har (fst item) (init ss) = Inr l"
      by (auto simp: site_leaks_of_def split: sum.splits)
    from process_har_Inr [OF ph] ne obtain entries where
      vals: "\<forall>p \<in> set l. snd p \<noteq> []" and cap: "har = Capture entries"
      and hit: "\<exists>te \<in> set entries. fst (check_entry (init ss) (entry_timestamp te) (snd te)) \<noteq> []"
      by blast
    have w: "website r = fst item" using req by (simp add: format_site_results_def)
    have "item = (website r, WithHar (Capture entries))"
      using har cap w by (cases item) simp
    then have "(website r, WithHar (Capture entries)) \<in> set base_folder"
      using item by simp
    moreover have "leaks r \<noteq> []" using req ne by (simp add: format_site_results_def)
    moreover have "\<forall>g \<in> set (leaks r). data_leaked g \<noteq> []"
      using req vals by (auto simp: format_site_results_def)
    ultimately show ?thesis using ss hit w by auto
  qed
  have none: "(final_results = []) =
      (\<forall>item \<in> set base_folder. \<forall>har. snd item = WithHar har \<longrightarrow>
         site_leaks_of tld init scm general profiles (fst item) har = Inr [])"
  proof
    assume e: "final_results = []"
    show "\<forall>item \<in> set base_folder. \<forall>har. snd item = WithHar har \<longrightarrow>
         site_leaks_of tld init scm general profiles (fst item) har = Inr []"
    proof (intro ballI allI impI)
      fix item har assume i: "item \<in> set base_folder" and h: "snd item = WithHar har"
      from ok i h obtain l where l: "site_leaks_of tld init scm general profiles (fst item) har = Inr l"
        by blast
      have "site_contribution tld init scm general profiles item = []"
        using e final i by auto
      then have "l = []" using h l by (auto simp: site_contribution_def split: if_splits)
      then show "site_leaks_of tld init scm general profiles (fst item) har = Inr []"
        using l by simp
    qed
  next
    assume a: "\<forall>item \<in> set base_folder. \<forall>har. snd item = WithHar har \<longrightarrow>
         site_leaks_of tld init scm general profiles (fst item) har = Inr []"
    have "\<forall>item \<in> set base_folder. site_contribution tld init scm general profiles item = []"
      using a by (auto simp: site_contribution_def split: folder_item.splits sum.splits)
    then show "final_results = []" using final by simp
  qed
  show ?thesis
    using written each none by (auto split: if_splits)
qed

theorem output_only_for_leaking_sites_witness:
  "process_all_hars_and_check_for_leaks sample_tld sample_init
      [(''notes.txt'', NotDirectory), (''empty.example'', WithoutHar),
       (''quiet.example'', WithHar (Capture [entry_url_quiet])),
       (''shop.example'', WithHar (Capture [entry_url_quiet, entry_nourl_leaking]))]
      [(''shop.example'', ''dutch'')] sample_general [(''dutch'', sample_profile)] =
     Inr (Some [\<lparr>website = ''shop.example'',
                 leaks = [\<lparr>domain = ''tracker.example'',
                           data_leaked = [\<lparr>leaked_value = ''Ann'', encoding_or_hash = ''urlencode'',
                              leak_method = ''Cookies'', timestamp = ''t2''\<rparr>]\<rparr>]\<rparr>])
   \<and> process_all_hars_and_check_for_leaks sample_tld sample_init
      [(''notes.txt'', NotDirectory), (''empty.example'', WithoutHar),
       (''quiet.example'', WithHar (Capture [entry_url_quiet]))]
      [(''shop.example'', ''dutch'')] sample_general [(''dutch'', sample_profile)] = Inr None"
proof -
  have ss: "get_search_strings sample_general
      (select_profile [(''shop.example'', ''dutch'')] [(''dutch'', sample_profile)] site) site =
     Inr [PStr ''@'', PStr (''+'' @ site @ ''@''), PStr ''Ann Lee'', PStr ''0612345678'',
          PStr ''+31612345678'', PStr ''31612345678'', PStr ''1234 AB'', PStr ''Damrak 1'',
          PStr ''/'', PStr ''41111111'', PStr ''Ann'', PStr ''Lee'', PStr ''4111 1111'',
          PStr ''0612345678'', PStr ''+31612345678'', PStr ''+31'', PStr ''1234AB'',
          PStr ''Damrak'']" for site
    by (simp add: select_profile_def get_search_strings_def dict_get_def dict_get_default_def
        py_str_def strip_def is_space_def slice_from_def slice_to_def replace_spaces_def
        general_exclusions_def profile_exclusions_def isinstance_str_def Let_def
        split: option.splits)
  have a: "process_all_hars_and_check_for_leaks sample_tld sample_init
      [(''notes.txt'', NotDirectory), (''empty.example'', WithoutHar),
       (''quiet.example'', WithHar (Capture [entry_url_quiet])),
       (''shop.example'', WithHar (Capture [entry_url_quiet, entry_nourl_leaking]))]
      [(''shop.example'', ''dutch'')] sample_general [(''dutch'', sample_profile)] =
     Inr (Some [\<lparr>website = ''shop.example'',
                 leaks = [\<lparr>domain = ''tracker.example'',
                           data_leaked = [\<lparr>leaked_value = ''Ann'', encoding_or_hash = ''urlencode'',
                              leak_method = ''Cookies'', timestamp = ''t2''\<rparr>]\<rparr>]\<rparr>])"
    by (simp add: process_all_hars_and_check_for_leaks_def process_site_def ss
        process_har_and_check_for_leaks_def format_site_results_def run_defs)
  have b: "process_all_hars_and_check_for_leaks sample_tld sample_init
      [(''notes.txt'', NotDirectory), (''empty.example'', WithoutHar),
       (''quiet.example'', WithHar (Capture [entry_url_quiet]))]
      [(''shop.example'', ''dutch'')] sample_general [(''dutch'', sample_profile)] = Inr None"
    by (simp add: process_all_hars_and_check_for_leaks_def process_site_def ss
        process_har_and_check_for_leaks_def format_site_results_def run_defs)
  show ?thesis
    using output_only_for_leaking_sites [OF a] output_only_for_leaking_sites [OF b] a b
    by simp
qed

section \<open>Properties of the search strings\<close>

lemma sample_search_strings:
  "get_search_strings sample_general sample_profile ''shop.example'' =
     Inr [PStr ''@'', PStr ''+shop.example@'', PStr ''Ann Lee'', PStr ''0612345678'',
          PStr ''+31612345678'', PStr ''31612345678'', PStr ''1234 AB'', PStr ''Damrak 1'',
          PStr ''/'', PStr ''41111111'', PStr ''Ann'', PStr ''Lee'', PStr ''4111 1111'',
          PStr ''0612345678'', PStr ''+31612345678'', PStr ''+31'', PStr ''1234AB'',
          PStr ''Damrak'']"
  by (simp add: get_search_strings_def dict_get_def dict_get_default_def py_str_def strip_def
      is_space_def slice_from_def slice_to_def replace_spaces_def general_exclusions_def
      profile_exclusions_def isinstance_str_def Let_def)

lemma append_items_filter:
  "append_items exclusions items search_strings =
     search_strings @ map snd (filter (\<lambda>item. fst item \<notin> set exclusions
        \<and> isinstance_str (snd item)) items)"
  by (induction items arbitrary: search_strings) auto

lemma empty_profile_raises: "get_search_strings general [] site = Inl TypeError"
  by (simp add: get_search_strings_def dict_get_def slice_from_def Let_def)

text \<open>
  Claim C1. The site is mapped to a country that the profile table does not have, so the
  profile is the empty record. The claim says that the search strings are then generated
  without an error; the code raises \<open>TypeError\<close> when it slices the absent
  international phone number, and the whole run ends with that error.
\<close>

theorem unknown_country_raises:
  "select_profile [(''shop.example'', ''german'')] [(''dutch'', sample_profile)] ''shop.example'' = []
   \<and> get_search_strings sample_general
        (select_profile [(''shop.example'', ''german'')] [(''dutch'', sample_profile)] ''shop.example'')
        ''shop.example'' = Inl TypeError
   \<and> process_all_hars_and_check_for_leaks sample_tld sample_init
        [(''shop.example'', WithHar (Capture [entry_url_leaking]))]
        [(''shop.example'', ''german'')] sample_general [(''dutch'', sample_profile)] = Inl TypeError"
  by (simp add: select_profile_def empty_profile_raises process_all_hars_and_check_for_leaks_def
      process_site_def)

text \<open>
  Claim C2, as amended. After the rule strings (ten when the country code is \<open>+31\<close>,
  nine otherwise), the search strings are the values of the string-valued fields of the
  general record whose key is none of date_of_birth, credit_card_expiry_month,
  credit_card_expiry_year, credit_card_cvv, email_prefix and email_suffix, in the order of
  the record, followed by those of the profile. The fields first_name, last_name and
  credit_card_number are not excluded.
\<close>

theorem general_fields_appended:
  assumes "get_search_strings general profile site = Inr search_strings"
  shows "drop (if dict_get profile ''country_code'' = PStr ''+31'' then 10 else 9) search_strings =
     map snd (filter (\<lambda>item.
        fst item \<notin> {''date_of_birth'', ''credit_card_expiry_month'', ''credit_card_expiry_year'',
                      ''credit_card_cvv'', ''email_prefix'', ''email_suffix''}
        \<and> isinstance_str (snd item)) general) @
     map snd (filter (\<lambda>item.
        fst item \<notin> {''payment_options'', ''house_number''} \<and> isinstance_str (snd item)) profile)"
  using assms
  by (auto simp: get_search_strings_def Let_def append_items_filter general_exclusions_def
      profile_exclusions_def split: sum.splits if_splits)

text \<open>
  Claim C2 as stated says that a field consumed by a special rule does not appear again on
  its own. For a general record with a first name, a last name and a card number, the loop
  appends all three, where the claim has none of them.
\<close>

theorem general_fields_appended_counterexample:
  "get_search_strings sample_general sample_profile ''shop.example'' =
     Inr [PStr ''@'', PStr ''+shop.example@'', PStr ''Ann Lee'', PStr ''0612345678'',
          PStr ''+31612345678'', PStr ''31612345678'', PStr ''1234 AB'', PStr ''Damrak 1'',
          PStr ''/'', PStr ''41111111'', PStr ''Ann'', PStr ''Lee'', PStr ''4111 1111'',
          PStr ''0612345678'', PStr ''+31612345678'', PStr ''+31'', PStr ''1234AB'',
          PStr ''Damrak'']
   \<and> append_items general_exclusions sample_general [] =
       [PStr ''Ann'', PStr ''Lee'', PStr ''4111 1111'']
   \<and> claimed_general_strings sample_general = []"
  by (simp add: sample_search_strings claimed_general_strings_def general_exclusions_def
      isinstance_str_def)

theorem general_fields_appended_witness:
  "get_search_strings sample_general sample_profile ''shop.example'' =
     Inr [PStr ''@'', PStr ''+shop.example@'', PStr ''Ann Lee'', PStr ''0612345678'',
          PStr ''+31612345678'', PStr ''31612345678'', PStr ''1234 AB'', PStr ''Damrak 1'',
          PStr ''/'', PStr ''41111111'', PStr ''Ann'', PStr ''Lee'', PStr ''4111 1111'',
          PStr ''0612345678'', PStr ''+31612345678'', PStr ''+31'', PStr ''1234AB'',
          PStr ''Damrak'']
   \<and> drop 10 [PStr ''@'', PStr ''+shop.example@'', PStr ''Ann Lee'', PStr ''0612345678'',
          PStr ''+31612345678'', PStr ''31612345678'', PStr ''1234 AB'', PStr ''Damrak 1'',
          PStr ''/'', PStr ''41111111'', PStr ''Ann'', PStr ''Lee'', PStr ''4111 1111'',
          PStr ''0612345678'', PStr ''+31612345678'', PStr ''+31'', PStr ''1234AB'',
          PStr ''Damrak''] =
       [PStr ''Ann'', PStr ''Lee'', PStr ''4111 1111''] @
       [PStr ''0612345678'', PStr ''+31612345678'', PStr ''+31'', PStr ''1234AB'', PStr ''Damrak'']"
  using general_fields_appended [OF sample_search_strings]
  by (simp add: sample_search_strings)

end
